theory Spec2Isabelle
  imports
    Complex_Main
    "HOL-Library.Sublist"
    "HOL-Library.Multiset"
    "HOL-Library.Char_ord"
    "HOL-Library.List_Lexorder"
    "HOL-Library.Product_Lexorder"
    "HOL-Library.Option_ord"
begin

section \<open>Strings\<close>

text \<open>
  Tickers, column labels and rating labels are Python \<open>str\<close> values. They are modelled as
  \<open>string\<close> (lists of 8-bit characters). The case conversions are exact on ASCII text, which
  is what ticker symbols and the column labels \<open>symbol\<close>/\<open>ticker\<close> are made of; a character
  outside \<open>a..z\<close> (resp. \<open>A..Z\<close>) is left alone.
\<close>

definition upper_char :: "char \<Rightarrow> char" where
  "upper_char c =
     (case map_of (zip ''abcdefghijklmnopqrstuvwxyz'' ''ABCDEFGHIJKLMNOPQRSTUVWXYZ'') c of
        Some u \<Rightarrow> u
      | None \<Rightarrow> c)"

definition lower_char :: "char \<Rightarrow> char" where
  "lower_char c =
     (case map_of (zip ''ABCDEFGHIJKLMNOPQRSTUVWXYZ'' ''abcdefghijklmnopqrstuvwxyz'') c of
        Some l \<Rightarrow> l
      | None \<Rightarrow> c)"

text \<open>\<^verbatim>\<open>s.upper()\<close> and \<^verbatim>\<open>s.lower()\<close>.\<close>

definition upper :: "string \<Rightarrow> string" where
  "upper s = map upper_char s"

definition lower :: "string \<Rightarrow> string" where
  "lower s = map lower_char s"

text \<open>
  \<^verbatim>\<open>s.replace(old, new)\<close> for a one-character \<open>old\<close>. Python's \<open>new\<close> is a string, here
  either one character or the empty string (deletion).
\<close>

definition replace :: "char \<Rightarrow> string \<Rightarrow> string \<Rightarrow> string" where
  "replace old new s = concat (map (\<lambda>c. if c = old then new else [c]) s)"

text \<open>\<^verbatim>\<open>s.strip()\<close>: leading and trailing ASCII whitespace removed.\<close>

definition is_space :: "char \<Rightarrow> bool" where
  "is_space c = (c \<in> set [CHR '' '', CHR 0x09, CHR 0x0A, CHR 0x0B, CHR 0x0C, CHR 0x0D])"

definition strip :: "string \<Rightarrow> string" where
  "strip s = rev (dropWhile is_space (rev (dropWhile is_space s)))"

text \<open>\<^verbatim>\<open>needle in hay\<close> on strings is the contiguous-substring test \<^const>\<open>sublist\<close>.\<close>

definition py_in :: "string \<Rightarrow> string \<Rightarrow> bool" where
  "py_in needle hay = sublist needle hay"


section \<open>Universe loaders (tv_equity_scanner.py)\<close>

text \<open>
  A pandas data frame, as far as the loaders read it: its columns in order, each a label
  and the cells of the column top to bottom, already rendered by \<^verbatim>\<open>astype(str)\<close>.
  \<^verbatim>\<open>pd.read_csv\<close> makes the labels of one frame pairwise different, so \<^verbatim>\<open>df[col]\<close> for the
  first matching label \<open>col\<close> is the first matching column.
\<close>

type_synonym column = "string \<times> string list"
type_synonym dataframe = "column list"

datatype py_error =
    RuntimeError string
  | IOError string
  | KeyError string
  | SystemExit int

text \<open>
  The chain applied to the ticker column by every loader of the equity scanner:
  \<^verbatim>\<open>.str.replace(".", "-").str.replace("/", "-").str.replace(" ", "").str.upper()\<close>.
\<close>

definition normalize_ticker :: "string \<Rightarrow> string" where
  "normalize_ticker s =
     upper (replace (CHR '' '') [] (replace (CHR ''/'') ''-'' (replace (CHR ''.'') ''-'' s)))"

definition normalize_column :: "string list \<Rightarrow> string list" where
  "normalize_column cells = map normalize_ticker cells"

text \<open>
  The column searches. \<open>fetch_sp500\<close> wants the stripped, lower-cased label to be one of
  three words; the two CSV readers want the lower-cased label to contain \<open>ticker\<close> or
  \<open>symbol\<close>. Both take the first column that qualifies (\<^verbatim>\<open>break\<close>).
\<close>

definition exact_ticker_label :: "string \<Rightarrow> bool" where
  "exact_ticker_label c = (lower (strip c) \<in> set [''symbol'', ''ticker'', ''tickers''])"

definition loose_ticker_label :: "string \<Rightarrow> bool" where
  "loose_ticker_label c = (py_in ''ticker'' (lower c) \<or> py_in ''symbol'' (lower c))"

definition find_column :: "(string \<Rightarrow> bool) \<Rightarrow> dataframe \<Rightarrow> column option" where
  "find_column p df = find (\<lambda>col. p (fst col)) df"

text \<open>
  The file system is a parameter: \<open>read_csv path\<close> is the outcome of \<^verbatim>\<open>pd.read_csv(path)\<close>
  (\<open>Inl\<close>: the exception it raised).
\<close>

definition read_sp500_csv :: "(string \<Rightarrow> py_error + dataframe) \<Rightarrow> string \<Rightarrow> py_error + string list" where
  "read_sp500_csv read_csv csv_path =
     (case read_csv csv_path of
        Inl e \<Rightarrow> Inl e
      | Inr df \<Rightarrow>
          (case find_column loose_ticker_label df of
             None \<Rightarrow> Inl (RuntimeError ''CSV must contain a 'ticker' or 'symbol' column for S&P 500.'')
           | Some col \<Rightarrow> Inr (normalize_column (snd col))))"

definition read_russell3000 :: "(string \<Rightarrow> py_error + dataframe) \<Rightarrow> string \<Rightarrow> py_error + string list" where
  "read_russell3000 read_csv csv_path =
     (case read_csv csv_path of
        Inl e \<Rightarrow> Inl e
      | Inr df \<Rightarrow>
          (case find_column loose_ticker_label df of
             None \<Rightarrow> Inl (RuntimeError ''CSV must contain a 'ticker' or 'symbol' column.'')
           | Some col \<Rightarrow> Inr (normalize_column (snd col))))"

text \<open>
  \<open>fetch_sp500\<close> reads the network. What it receives is a parameter: \<open>read_html url\<close> is the
  outcome of the request and parse inside \<open>_try_read_html\<close>, \<open>get_csv url\<close> the outcome of the
  request and \<^verbatim>\<open>pd.read_csv\<close> of the fallback (\<open>Inl\<close>: an exception was raised).
\<close>

record web =
  read_html :: "string \<Rightarrow> py_error + dataframe list"
  get_csv :: "string \<Rightarrow> py_error + dataframe"

definition try_read_html :: "web \<Rightarrow> string \<Rightarrow> dataframe list option" where
  "try_read_html w url = (case read_html w url of Inl e \<Rightarrow> None | Inr ts \<Rightarrow> Some ts)"

text \<open>Python truthiness of \<open>tables\<close>: neither \<open>None\<close> nor the empty list.\<close>

definition truthy :: "'a list option \<Rightarrow> bool" where
  "truthy t = (case t of None \<Rightarrow> False | Some xs \<Rightarrow> xs \<noteq> [])"

definition wiki_urls :: "string list" where
  "wiki_urls =
     [''https://en.wikipedia.org/wiki/List_of_S%26P_500_companies'',
      ''https://en.wikipedia.org/wiki/List_of_S%26P_500_companies?oldformat=true'',
      ''https://en.wikipedia.org/wiki/List_of_S%26P_500_companies?action=render'']"

definition fallback_url :: string where
  "fallback_url = ''https://datahub.io/core/s-and-p-500-companies/r/constituents.csv''"

text \<open>The loop over the page variants; \<open>tables\<close> keeps the last outcome when none is truthy.\<close>

fun first_tables :: "web \<Rightarrow> string list \<Rightarrow> dataframe list option \<Rightarrow> dataframe list option" where
  "first_tables w [] tables = tables"
| "first_tables w (url # urls) tables =
     (let t = try_read_html w url in if truthy t then t else first_tables w urls t)"

text \<open>The loop over the tables of the page: the first table that has a ticker column.\<close>

fun first_constituents :: "dataframe list \<Rightarrow> column option" where
  "first_constituents [] = None"
| "first_constituents (t # ts) =
     (case find_column exact_ticker_label t of
        Some col \<Rightarrow> Some col
      | None \<Rightarrow> first_constituents ts)"

definition fetch_sp500_fallback :: "web \<Rightarrow> py_error + string list" where
  "fetch_sp500_fallback w =
     (case get_csv w fallback_url of
        Inl e \<Rightarrow> Inl (RuntimeError ''Failed to fetch S&P 500 list from all sources.'')
      | Inr df \<Rightarrow>
          (case find_column exact_ticker_label df of
             None \<Rightarrow> Inl (RuntimeError ''Failed to fetch S&P 500 list from all sources.'')
           | Some col \<Rightarrow> Inr (normalize_column (snd col))))"

definition fetch_sp500 :: "web \<Rightarrow> py_error + string list" where
  "fetch_sp500 w =
     (case first_tables w wiki_urls None of
        None \<Rightarrow> fetch_sp500_fallback w
      | Some tables \<Rightarrow>
          if tables = [] then fetch_sp500_fallback w
          else
            (case first_constituents tables of
               None \<Rightarrow> Inl (RuntimeError ''Could not find a constituents table on Wikipedia page.'')
             | Some col \<Rightarrow> Inr (normalize_column (snd col))))"


section \<open>Symbol candidates (tv_equity_scanner.py)\<close>

definition EQUITY_EXCHANGES :: "string list" where
  "EQUITY_EXCHANGES = [''NASDAQ'', ''NYSE'', ''AMEX'']"

text \<open>
  \<open>cands\<close> is a Python \<open>set\<close> of strings. Adding an element that is already there changes
  nothing; the elements are kept here in insertion order. The order in which \<^verbatim>\<open>for t in cands\<close>
  visits them is decided by the string hashes, which the interpreter salts per process, and
  not by the code: it is the parameter \<open>order\<close>, a function that rearranges the elements.
  \<open>set_iteration order\<close> says what every such order satisfies: each element is visited
  exactly once.
\<close>

definition set_add :: "'a \<Rightarrow> 'a list \<Rightarrow> 'a list" where
  "set_add x xs = (if x \<in> set xs then xs else xs @ [x])"

definition set_iteration :: "(string list \<Rightarrow> string list) \<Rightarrow> bool" where
  "set_iteration order = (\<forall>xs. mset (order xs) = mset xs)"

text \<open>
  The exchanges are the module constant \<open>EQUITY_EXCHANGES\<close> in the source; the function
  takes them as the argument \<open>exchanges\<close>, and the scan passes the constant.
\<close>

definition tv_symbol_candidates ::
  "(string list \<Rightarrow> string list) \<Rightarrow> string list \<Rightarrow> string \<Rightarrow> (string \<times> string) list" where
  "tv_symbol_candidates order exchanges ticker =
     (let cands = [ticker];
          cands = (if CHR ''-'' \<in> set ticker
                   then set_add (replace (CHR ''-'') ''.'' ticker) cands else cands);
          cands = (if CHR ''.'' \<in> set ticker
                   then set_add (replace (CHR ''.'') ''-'' ticker) cands else cands)
      in concat (map (\<lambda>t. map (\<lambda>ex. (ex, t)) exchanges) (order cands)))"


section \<open>Rating lookup (tv_equity_scanner.py)\<close>

text \<open>
  The technical-analysis service is outside the program. One call
  \<^verbatim>\<open>TA_Handler(symbol, exchange, screener, interval).get_analysis()\<close> either raises (any
  \<open>Exception\<close>: network failure, unknown symbol, rate limit) or returns an analysis whose
  \<open>summary\<close> is a dictionary. The two timeframes are the library constants the scanner uses.
\<close>

datatype interval = INTERVAL_4_HOURS | INTERVAL_1_WEEK

datatype analysis = Raises string | Summary "(string \<times> string) list"

type_synonym handler = "string \<Rightarrow> string \<Rightarrow> interval \<Rightarrow> analysis"

text \<open>The body of the \<^verbatim>\<open>try\<close> block: \<open>Inl\<close> is the exception that left it.\<close>

definition tv_query :: "handler \<Rightarrow> string \<Rightarrow> string \<Rightarrow> interval \<Rightarrow> string + string option" where
  "tv_query h exchange symbol iv =
     (case h exchange symbol iv of
        Raises e \<Rightarrow> Inl e
      | Summary summary \<Rightarrow> Inr (map_of summary ''RECOMMENDATION''))"

text \<open>The function with its handler \<^verbatim>\<open>except Exception: return None\<close>.\<close>

definition get_tv_rating :: "handler \<Rightarrow> string \<Rightarrow> string \<Rightarrow> interval \<Rightarrow> string option" where
  "get_tv_rating h exchange symbol iv =
     (case tv_query h exchange symbol iv of
        Inl e \<Rightarrow> None
      | Inr rec \<Rightarrow> rec)"


section \<open>The scan (tv_equity_scanner.py)\<close>

text \<open>
  What a run does to the outside is kept in a state: how many queries have been issued, the
  trace of queries and sleeps in the order they happened, and the files written. The service
  may answer the same question differently at different times, so it is a function of the
  number of queries issued before: \<open>svc k\<close> answers the query that follows \<open>k\<close> earlier ones.
  Printing to the terminal is not modelled.
\<close>

datatype event = Query string string interval | Sleep rat

record row =
  ticker :: string
  tv_exchange :: string
  tv_symbol :: string
  rating :: string
  timeframe :: interval

record out_file =
  file_label :: string
  file_timeframe :: interval
  file_table :: "row list"

record world =
  issued :: nat
  trace :: "event list"
  files :: "out_file list"

type_synonym service = "nat \<Rightarrow> handler"

definition query :: "string \<Rightarrow> string \<Rightarrow> interval \<Rightarrow> world \<Rightarrow> world" where
  "query ex symb tf w = w\<lparr>issued := Suc (issued w), trace := trace w @ [Query ex symb tf]\<rparr>"

definition sleep :: "rat \<Rightarrow> world \<Rightarrow> world" where
  "sleep d w = w\<lparr>trace := trace w @ [Sleep d]\<rparr>"

definition write_file :: "out_file \<Rightarrow> world \<Rightarrow> world" where
  "write_file f w = w\<lparr>files := files w @ [f]\<rparr>"

text \<open>
  The loop over the candidates of one ticker: \<^verbatim>\<open>for ex, sym in tv_symbol_candidates(t)\<close>,
  with its two \<^verbatim>\<open>break\<close>s. \<open>rows\<close> is the list the loop appends to.
\<close>

fun probe ::
  "service \<Rightarrow> interval \<Rightarrow> string \<Rightarrow> (string \<times> string) list \<Rightarrow> row list \<Rightarrow> world \<Rightarrow> row list \<times> world" where
  "probe svc tf t [] rows w = (rows, w)"
| "probe svc tf t ((ex, symb) # cands) rows w =
     (let w' = query ex symb tf w in
      case get_tv_rating (svc (issued w)) ex symb tf of
        Some rec \<Rightarrow>
          if rec \<in> set [''BUY'', ''STRONG_BUY''] then
            (rows @ [\<lparr>ticker = t, tv_exchange = ex, tv_symbol = symb, rating = rec, timeframe = tf\<rparr>], w')
          else (rows, w')
      | None \<Rightarrow> probe svc tf t cands rows w')"

text \<open>
  The loop over the tickers, \<^verbatim>\<open>for i, t in enumerate(tickers, 1)\<close>: probe the candidates
  of \<open>t\<close>, then \<^verbatim>\<open>time.sleep(SLEEP_BETWEEN_CALLS)\<close>. The global \<open>SLEEP_BETWEEN_CALLS\<close> is
  the argument of that name.
\<close>

fun scan_tickers ::
  "service \<Rightarrow> (string list \<Rightarrow> string list) \<Rightarrow> rat \<Rightarrow> interval \<Rightarrow> string list \<Rightarrow> row list \<Rightarrow> world
     \<Rightarrow> row list \<times> world" where
  "scan_tickers svc order SLEEP_BETWEEN_CALLS tf [] rows w = (rows, w)"
| "scan_tickers svc order SLEEP_BETWEEN_CALLS tf (t # tickers) rows w =
     (case probe svc tf t (tv_symbol_candidates order EQUITY_EXCHANGES t) rows w of
        (rows', w') \<Rightarrow>
          scan_tickers svc order SLEEP_BETWEEN_CALLS tf tickers rows' (sleep SLEEP_BETWEEN_CALLS w'))"

text \<open>
  \<^verbatim>\<open>out.sort_values(["rating", "ticker"], ascending=[True, True])\<close>: a stable sort on the
  pair of the two strings, compared as Python compares strings.
\<close>

definition sort_values :: "row list \<Rightarrow> row list" where
  "sort_values rows = sort_key (\<lambda>r. (rating r, ticker r)) rows"

text \<open>
  The loop over the timeframes. The file \<^verbatim>\<open>tv_scan_{label}_{tf}.csv\<close> is identified by its
  label and timeframe.
\<close>

fun scan_universe ::
  "service \<Rightarrow> (string list \<Rightarrow> string list) \<Rightarrow> rat \<Rightarrow> string list \<Rightarrow> string \<Rightarrow> interval list \<Rightarrow> world
     \<Rightarrow> world" where
  "scan_universe svc order SLEEP_BETWEEN_CALLS tickers label [] w = w"
| "scan_universe svc order SLEEP_BETWEEN_CALLS tickers label (tf # intervals) w =
     (case scan_tickers svc order SLEEP_BETWEEN_CALLS tf tickers [] w of
        (rows, w') \<Rightarrow>
          (let out = (if rows \<noteq> [] then sort_values rows else rows)
           in scan_universe svc order SLEEP_BETWEEN_CALLS tickers label intervals
                (write_file \<lparr>file_label = label, file_timeframe = tf, file_table = out\<rparr> w')))"


section \<open>The command line driver (tv_equity_scanner.py)\<close>

text \<open>The parsed command line, one field per flag.\<close>

record args =
  sp500_csv :: "string option"
  r3000_csv :: "string option"
  skip_sp500 :: bool
  only :: "string option"
  intervals :: "string list"
  sleep_arg :: rat
  start :: int
  end_arg :: "int option"

text \<open>
  What the run reads from outside: the network, the file system, the rating service and
  the iteration order of string sets.
\<close>

record env =
  env_web :: web
  env_read_csv :: "string \<Rightarrow> py_error + dataframe"
  env_service :: service
  env_order :: "string list \<Rightarrow> string list"

definition interval_map :: "string \<Rightarrow> interval option" where
  "interval_map = map_of [(''4h'', INTERVAL_4_HOURS), (''1w'', INTERVAL_1_WEEK)]"

text \<open>The loop that maps the requested intervals; an unknown one ends the run, \<^verbatim>\<open>sys.exit(1)\<close>.\<close>

fun map_intervals :: "string list \<Rightarrow> interval list \<Rightarrow> py_error + interval list" where
  "map_intervals [] acc = Inr acc"
| "map_intervals (tf # tfs) acc =
     (case interval_map tf of
        None \<Rightarrow> Inl (SystemExit 1)
      | Some iv \<Rightarrow> map_intervals tfs (acc @ [iv]))"

text \<open>
  Python slicing \<^verbatim>\<open>xs[start:end]\<close> and \<^verbatim>\<open>xs[start:]\<close> (\<open>end = None\<close>): a negative index counts
  from the end, and both are clipped to the list.
\<close>

definition clip_index :: "int \<Rightarrow> nat \<Rightarrow> nat" where
  "clip_index i n = (if i < 0 then nat (max 0 (int n + i)) else min (nat i) n)"

definition py_slice :: "'a list \<Rightarrow> int \<Rightarrow> int option \<Rightarrow> 'a list" where
  "py_slice xs i j =
     (let n = length xs;
          lo = clip_index i n;
          hi = (case j of None \<Rightarrow> n | Some k \<Rightarrow> clip_index k n)
      in take (hi - lo) (drop lo xs))"

text \<open>
  \<open>main\<close> after argument parsing. An exception that no handler catches ends the run: the
  result is that exception (\<open>None\<close>: the run returned) and the state reached. An optional
  path counts as supplied when it is neither \<open>None\<close> nor the empty string.
\<close>

definition load_sp500 :: "args \<Rightarrow> env \<Rightarrow> py_error + string list" where
  "load_sp500 a e =
     (case sp500_csv a of
        Some path \<Rightarrow>
          if path \<noteq> [] then read_sp500_csv (env_read_csv e) path else fetch_sp500 (env_web e)
      | None \<Rightarrow> fetch_sp500 (env_web e))"

definition sp500_block :: "args \<Rightarrow> env \<Rightarrow> interval list \<Rightarrow> world \<Rightarrow> py_error option \<times> world" where
  "sp500_block a e ivs w =
     (if only a \<in> {None, Some ''sp500''} \<and> \<not> skip_sp500 a then
        (case load_sp500 a e of
           Inl err \<Rightarrow> (Some err, w)
         | Inr sp \<Rightarrow>
             (None, scan_universe (env_service e) (env_order e) (sleep_arg a)
                      (py_slice sp (start a) (end_arg a)) ''sp500'' ivs w))
      else (None, w))"

definition r3000_block :: "args \<Rightarrow> env \<Rightarrow> interval list \<Rightarrow> world \<Rightarrow> py_error option \<times> world" where
  "r3000_block a e ivs w =
     (if only a \<in> {None, Some ''r3000''} then
        (case r3000_csv a of
           Some path \<Rightarrow>
             if path \<noteq> [] then
               (case read_russell3000 (env_read_csv e) path of
                  Inl err \<Rightarrow> (Some err, w)
                | Inr r3k \<Rightarrow>
                    (None, scan_universe (env_service e) (env_order e) (sleep_arg a)
                             (py_slice r3k (start a) (end_arg a)) ''russell3000'' ivs w))
             else (None, w)
         | None \<Rightarrow> (None, w))
      else (None, w))"

definition main :: "args \<Rightarrow> env \<Rightarrow> world \<Rightarrow> py_error option \<times> world" where
  "main a e w =
     (case map_intervals (intervals a) [] of
        Inl err \<Rightarrow> (Some err, w)
      | Inr ivs \<Rightarrow>
          (case sp500_block a e ivs w of
             (Some err, w') \<Rightarrow> (Some err, w')
           | (None, w') \<Rightarrow> r3000_block a e ivs w'))"

definition world0 :: world where
  "world0 = \<lparr>issued = 0, trace = [], files = []\<rparr>"


section \<open>The crypto pipeline (top_500_4h.py)\<close>

text \<open>
  One object of the market-cap listing, with the three keys the script reads. The listing
  gives \<open>market_cap\<close> as a number or as \<open>null\<close>.
\<close>

record coin =
  coin_symbol :: string
  coin_name :: string
  coin_market_cap :: "rat option"

text \<open>\<open>cg\<close>: the first page followed by the second, as received.\<close>

definition cg :: "coin list \<Rightarrow> coin list \<Rightarrow> coin list" where
  "cg page1 page2 = page1 @ page2"

text \<open>The local \<open>s\<close> of \<open>tv_symbols\<close>, and the function.\<close>

definition tv_symbols_base :: "string \<Rightarrow> string" where
  "tv_symbols_base symbol = replace (CHR ''-'') [] (replace (CHR ''.'') [] (upper symbol))"

definition tv_symbols :: "string \<Rightarrow> (string \<times> string) list" where
  "tv_symbols symbol =
     (let s = tv_symbols_base symbol
      in [(''BINANCE'', s @ ''USDT''),
          (''BYBIT'', s @ ''USDT''),
          (''COINBASE'', s @ ''USD''),
          (''KRAKEN'', s @ ''USD'')])"

record crypto_row =
  cr_name :: string
  cr_symbol :: string
  cr_tv_exchange :: string
  cr_tv_symbol :: string
  cr_market_cap :: "rat option"
  rating_4h :: string

text \<open>
  The loop over the candidates of one coin. A query that raises is followed by
  \<^verbatim>\<open>time.sleep(0.2)\<close> and the next candidate; one that answers ends the loop, with a row
  appended when the answer is a buy. \<^verbatim>\<open>r.get("RECOMMENDATION", "")\<close> reads a missing key as
  the empty string.
\<close>

fun probe_coin ::
  "service \<Rightarrow> coin \<Rightarrow> (string \<times> string) list \<Rightarrow> crypto_row list \<Rightarrow> world \<Rightarrow> crypto_row list \<times> world" where
  "probe_coin svc c [] rows w = (rows, w)"
| "probe_coin svc c ((ex, tvsym) # cands) rows w =
     (let w' = query ex tvsym INTERVAL_4_HOURS w in
      case svc (issued w) ex tvsym INTERVAL_4_HOURS of
        Raises e \<Rightarrow> probe_coin svc c cands rows (sleep (2 / 10) w')
      | Summary r \<Rightarrow>
          (let rec = (case map_of r ''RECOMMENDATION'' of None \<Rightarrow> [] | Some v \<Rightarrow> v)
           in if rec \<in> set [''BUY'', ''STRONG_BUY''] then
                (rows @ [\<lparr>cr_name = coin_name c, cr_symbol = upper (coin_symbol c),
                          cr_tv_exchange = ex, cr_tv_symbol = tvsym,
                          cr_market_cap = coin_market_cap c, rating_4h = rec\<rparr>], w')
              else (rows, w')))"

fun scan_coins :: "service \<Rightarrow> coin list \<Rightarrow> crypto_row list \<Rightarrow> world \<Rightarrow> crypto_row list \<times> world" where
  "scan_coins svc [] rows w = (rows, w)"
| "scan_coins svc (c # cs) rows w =
     (case probe_coin svc c (tv_symbols (coin_symbol c)) rows w of
        (rows', w') \<Rightarrow> scan_coins svc cs rows' w')"

text \<open>
  \<^verbatim>\<open>pd.DataFrame(rows).sort_values("market_cap", ascending=False)\<close>: largest first, rows
  without a market cap last. A frame built from no rows has no column \<open>market_cap\<close>, and
  sorting it raises \<open>KeyError\<close>.
\<close>

definition sort_market_cap_desc :: "crypto_row list \<Rightarrow> crypto_row list" where
  "sort_market_cap_desc rows = rev (sort_key cr_market_cap (rev rows))"

definition top_500_4h ::
  "service \<Rightarrow> coin list \<Rightarrow> coin list \<Rightarrow> world \<Rightarrow> (py_error + crypto_row list) \<times> world" where
  "top_500_4h svc page1 page2 w =
     (case scan_coins svc (cg page1 page2) [] w of
        (rows, w') \<Rightarrow>
          if rows = [] then (Inl (KeyError ''market_cap''), w')
          else (Inr (sort_market_cap_desc rows), w'))"


section \<open>Properties the specification names\<close>

text \<open>
  The specification's own words for normalization, to compare with \<open>normalize_ticker\<close>:
  uppercased, with \<open>.\<close> and \<open>/\<close> mapped to \<open>-\<close>.
\<close>

definition spec_normalize :: "string \<Rightarrow> string" where
  "spec_normalize s =
     upper (map (\<lambda>c. if c = CHR ''.'' \<or> c = CHR ''/'' then CHR ''-'' else c) s)"

text \<open>
  A trace respects the delay \<open>d\<close> when a \<open>Sleep d\<close> lies between any two queries that follow
  one another. \<open>slept\<close> tells whether such a sleep has happened since the last query.
\<close>

fun delay_since :: "rat \<Rightarrow> bool \<Rightarrow> event list \<Rightarrow> bool" where
  "delay_since d slept [] = True"
| "delay_since d slept (Sleep x # es) = delay_since d (slept \<or> x = d) es"
| "delay_since d slept (Query ex symb tf # es) = (slept \<and> delay_since d False es)"

definition delay_between_queries :: "rat \<Rightarrow> event list \<Rightarrow> bool" where
  "delay_between_queries d es = delay_since d True es"

text \<open>A universe has been scanned in a state when a file with its label has been written.\<close>

definition scanned :: "string \<Rightarrow> world \<Rightarrow> bool" where
  "scanned label w = (label \<in> set (map file_label (files w)))"


text \<open>The queries for a list of candidates, as trace events.\<close>

definition queries :: "interval \<Rightarrow> (string \<times> string) list \<Rightarrow> event list" where
  "queries tf cands = map (\<lambda>c. Query (fst c) (snd c) tf) cands"


section \<open>Example inputs\<close>

text \<open>A constituents file in which one company is listed twice.\<close>

definition dup_csv :: "string \<Rightarrow> py_error + dataframe" where
  "dup_csv path =
     Inr [(''Security'', [''Apple'', ''Microsoft'', ''Apple'']),
          (''Symbol'', [''AAPL'', ''MSFT'', ''AAPL''])]"

definition dup_web :: web where
  "dup_web = \<lparr>read_html = (\<lambda>url. Inl (IOError url)), get_csv = dup_csv\<rparr>"

text \<open>
  A file system with two files: \<open>bad.csv\<close> has no ticker or symbol column, \<open>good.csv\<close> has one.
\<close>

definition two_files :: "string \<Rightarrow> py_error + dataframe" where
  "two_files path =
     (if path = ''bad.csv'' then Inr [(''Name'', [''Apple'', ''Microsoft''])]
      else if path = ''good.csv'' then Inr [(''Name'', [''IBM'']), (''Ticker'', [''ibm''])]
      else Inl (IOError path))"


definition svc_nyse_buy :: service where
  "svc_nyse_buy k ex symb tf =
     (if ex = ''NYSE'' then Summary [(''RECOMMENDATION'', ''BUY'')] else Raises ''no such symbol'')"


text \<open>A crypto service that knows the pairs on BYBIT only.\<close>

definition svc_bybit_buy :: service where
  "svc_bybit_buy k ex symb tf =
     (if ex = ''BYBIT'' then Summary [(''RECOMMENDATION'', ''BUY'')] else Raises ''no such symbol'')"

definition no_web :: web where
  "no_web = \<lparr>read_html = (\<lambda>url. Inl (IOError url)), get_csv = (\<lambda>url. Inl (IOError url))\<rparr>"

definition insertion_order :: "string list \<Rightarrow> string list" where
  "insertion_order xs = xs"

definition example_env :: env where
  "example_env =
     \<lparr>env_web = no_web, env_read_csv = two_files, env_service = svc_nyse_buy,
      env_order = insertion_order\<rparr>"

text \<open>Both files supplied: first with the bad S&P 500 file, then with the bad Russell 3000 file.\<close>

definition bad_sp500_args :: args where
  "bad_sp500_args =
     \<lparr>sp500_csv = Some ''bad.csv'', r3000_csv = Some ''good.csv'', skip_sp500 = False,
      only = None, intervals = [''4h''], sleep_arg = 15 / 100, start = 0, end_arg = None\<rparr>"

definition bad_r3000_args :: args where
  "bad_r3000_args =
     \<lparr>sp500_csv = Some ''good.csv'', r3000_csv = Some ''bad.csv'', skip_sp500 = False,
      only = None, intervals = [''4h''], sleep_arg = 15 / 100, start = 0, end_arg = None\<rparr>"

definition example_coins :: "coin list" where
  "example_coins =
     [\<lparr>coin_symbol = ''btc'', coin_name = ''Bitcoin'', coin_market_cap = Some 5\<rparr>,
      \<lparr>coin_symbol = ''eth'', coin_name = ''Ethereum'', coin_market_cap = Some 7\<rparr>]"



section \<open>Facts about strings\<close>

lemma upper_char_dash: "upper_char c = CHR ''-'' \<longleftrightarrow> c = CHR ''-''"
  by (simp add: upper_char_def split: if_splits)

lemma dash_upper_char: "CHR ''-'' = upper_char c \<longleftrightarrow> c = CHR ''-''"
  using upper_char_dash [of c] by auto

lemma replace_Nil: "replace old new [] = []"
  by (simp add: replace_def)

lemma replace_Cons:
  "replace old new (c # s) = (if c = old then new else [c]) @ replace old new s"
  by (simp add: replace_def)

lemma upper_Nil: "upper [] = []"
  by (simp add: upper_def)

lemma upper_Cons: "upper (c # s) = upper_char c # upper s"
  by (simp add: upper_def)

lemmas string_simps = replace_Nil replace_Cons upper_Nil upper_Cons

lemma normalize_ticker_Nil: "normalize_ticker [] = []"
  by (simp add: normalize_ticker_def string_simps)

lemma normalize_ticker_Cons:
  "normalize_ticker (c # s) =
     (if c = CHR '' '' then normalize_ticker s
      else if c = CHR ''.'' \<or> c = CHR ''/'' then CHR ''-'' # normalize_ticker s
      else upper_char c # normalize_ticker s)"
  by (simp add: normalize_ticker_def string_simps upper_char_def)

lemma normalize_ticker_spec:
  "normalize_ticker s = spec_normalize (filter (\<lambda>c. c \<noteq> CHR '' '') s)"
  by (induction s)
     (simp_all add: normalize_ticker_Nil normalize_ticker_Cons spec_normalize_def
        string_simps upper_char_def)

lemma dash_in_normalize_ticker:
  "CHR ''-'' \<in> set (normalize_ticker s) \<longleftrightarrow>
     CHR ''-'' \<in> set s \<or> CHR ''.'' \<in> set s \<or> CHR ''/'' \<in> set s"
  by (induction s)
     (auto simp: normalize_ticker_Nil normalize_ticker_Cons upper_char_dash dash_upper_char)

lemma set_replace_delete: "set (replace old [] s) = set s - {old}"
  by (induction s) (auto simp: string_simps)

lemma no_dash_in_tv_symbols_base: "CHR ''-'' \<notin> set (tv_symbols_base s)"
  by (simp add: tv_symbols_base_def set_replace_delete)


section \<open>The universe loaders\<close>

lemma find_column_Some:
  "find_column p df = Some col \<Longrightarrow> col \<in> set df \<and> p (fst col)"
  by (auto simp: find_column_def find_Some_iff)

lemma read_sp500_csv_Inr:
  "read_sp500_csv rd path = Inr syms \<Longrightarrow>
     \<exists>df col. rd path = Inr df \<and> find_column loose_ticker_label df = Some col
       \<and> syms = map normalize_ticker (snd col)"
  by (auto simp: read_sp500_csv_def normalize_column_def split: sum.splits option.splits)

lemma read_russell3000_Inr:
  "read_russell3000 rd path = Inr syms \<Longrightarrow>
     \<exists>df col. rd path = Inr df \<and> find_column loose_ticker_label df = Some col
       \<and> syms = map normalize_ticker (snd col)"
  by (auto simp: read_russell3000_def normalize_column_def split: sum.splits option.splits)

lemma first_constituents_Some:
  "first_constituents ts = Some col \<Longrightarrow>
     \<exists>df \<in> set ts. find_column exact_ticker_label df = Some col"
  by (induction ts) (auto split: option.splits)

lemma first_tables_Some:
  "first_tables w urls acc = Some ts \<Longrightarrow>
     acc = Some ts \<or> (\<exists>url \<in> set urls. read_html w url = Inr ts)"
  by (induction urls arbitrary: acc)
     (auto simp: Let_def try_read_html_def split: if_splits sum.splits)

lemma fetch_sp500_fallback_Inr:
  "fetch_sp500_fallback w = Inr syms \<Longrightarrow>
     \<exists>df col. get_csv w fallback_url = Inr df \<and> find_column exact_ticker_label df = Some col
       \<and> syms = map normalize_ticker (snd col)"
  by (auto simp: fetch_sp500_fallback_def normalize_column_def split: sum.splits option.splits)

lemma fetch_sp500_Inr:
  assumes "fetch_sp500 w = Inr syms"
  shows "\<exists>df col. find_column exact_ticker_label df = Some col
           \<and> syms = map normalize_ticker (snd col)
           \<and> (get_csv w fallback_url = Inr df
                \<or> (\<exists>url \<in> set wiki_urls. \<exists>ts. read_html w url = Inr ts \<and> df \<in> set ts))"
proof (cases "first_tables w wiki_urls None")
  case None
  with assms have "fetch_sp500_fallback w = Inr syms"
    by (simp add: fetch_sp500_def)
  from fetch_sp500_fallback_Inr [OF this] show ?thesis by blast
next
  case (Some ts)
  show ?thesis
  proof (cases "ts = []")
    case True
    with assms Some have "fetch_sp500_fallback w = Inr syms"
      by (simp add: fetch_sp500_def)
    from fetch_sp500_fallback_Inr [OF this] show ?thesis by blast
  next
    case False
    with assms Some obtain col where col: "first_constituents ts = Some col"
      and syms: "syms = map normalize_ticker (snd col)"
      by (auto simp: fetch_sp500_def normalize_column_def split: option.splits)
    from first_constituents_Some [OF col] obtain df
      where df: "df \<in> set ts" "find_column exact_ticker_label df = Some col" by blast
    from first_tables_Some [OF Some] obtain url
      where "url \<in> set wiki_urls" "read_html w url = Inr ts" by auto
    with df syms show ?thesis by blast
  qed
qed

text \<open>
  Claim C1, as the code has it. Every loader that succeeds returns the ticker column of the
  frame it read, normalized cell by cell: one identifier per row of the source, in the order
  of the source. Nothing is removed, so the result is free of duplicates exactly when the
  normalized column is. The market-cap listing is the first page followed by the second,
  object by object as received.
\<close>

theorem loaders_keep_every_row:
  "(read_sp500_csv rd path = Inr syms \<longrightarrow>
      (\<exists>df col. rd path = Inr df \<and> find_column loose_ticker_label df = Some col
         \<and> syms = map normalize_ticker (snd col)
         \<and> length syms = length (snd col)
         \<and> (distinct syms \<longleftrightarrow> distinct (map normalize_ticker (snd col)))))
   \<and> (read_russell3000 rd path = Inr syms \<longrightarrow>
      (\<exists>df col. rd path = Inr df \<and> find_column loose_ticker_label df = Some col
         \<and> syms = map normalize_ticker (snd col)
         \<and> length syms = length (snd col)
         \<and> (distinct syms \<longleftrightarrow> distinct (map normalize_ticker (snd col)))))
   \<and> (fetch_sp500 w = Inr syms \<longrightarrow>
      (\<exists>df col. find_column exact_ticker_label df = Some col
         \<and> (get_csv w fallback_url = Inr df
              \<or> (\<exists>url \<in> set wiki_urls. \<exists>ts. read_html w url = Inr ts \<and> df \<in> set ts))
         \<and> syms = map normalize_ticker (snd col)
         \<and> length syms = length (snd col)
         \<and> (distinct syms \<longleftrightarrow> distinct (map normalize_ticker (snd col)))))
   \<and> cg page1 page2 = page1 @ page2
   \<and> length (cg page1 page2) = length page1 + length page2"
proof (intro conjI impI)
  assume "read_sp500_csv rd path = Inr syms"
  from read_sp500_csv_Inr [OF this]
  show "\<exists>df col. rd path = Inr df \<and> find_column loose_ticker_label df = Some col
         \<and> syms = map normalize_ticker (snd col)
         \<and> length syms = length (snd col)
         \<and> (distinct syms \<longleftrightarrow> distinct (map normalize_ticker (snd col)))"
    by auto
next
  assume "read_russell3000 rd path = Inr syms"
  from read_russell3000_Inr [OF this]
  show "\<exists>df col. rd path = Inr df \<and> find_column loose_ticker_label df = Some col
         \<and> syms = map normalize_ticker (snd col)
         \<and> length syms = length (snd col)
         \<and> (distinct syms \<longleftrightarrow> distinct (map normalize_ticker (snd col)))"
    by auto
next
  assume "fetch_sp500 w = Inr syms"
  from fetch_sp500_Inr [OF this] obtain df col where
    "find_column exact_ticker_label df = Some col"
    "syms = map normalize_ticker (snd col)"
    "get_csv w fallback_url = Inr df
       \<or> (\<exists>url \<in> set wiki_urls. \<exists>ts. read_html w url = Inr ts \<and> df \<in> set ts)"
    by blast
  then show "\<exists>df col. find_column exact_ticker_label df = Some col
         \<and> (get_csv w fallback_url = Inr df
              \<or> (\<exists>url \<in> set wiki_urls. \<exists>ts. read_html w url = Inr ts \<and> df \<in> set ts))
         \<and> syms = map normalize_ticker (snd col)
         \<and> length syms = length (snd col)
         \<and> (distinct syms \<longleftrightarrow> distinct (map normalize_ticker (snd col)))"
    by (intro exI [of _ df] exI [of _ col]) simp
qed (simp_all add: cg_def)


lemmas label_eval =
  find_column_def loose_ticker_label_def exact_ticker_label_def py_in_def lower_def
  lower_char_def strip_def is_space_def sublist_code prefix_code

lemmas ticker_eval =
  normalize_column_def normalize_ticker_Nil normalize_ticker_Cons upper_char_def

lemma read_sp500_csv_dup: "read_sp500_csv dup_csv path = Inr [''AAPL'', ''MSFT'', ''AAPL'']"
  by (simp add: read_sp500_csv_def dup_csv_def label_eval ticker_eval)

lemma read_russell3000_dup: "read_russell3000 dup_csv path = Inr [''AAPL'', ''MSFT'', ''AAPL'']"
  by (simp add: read_russell3000_def dup_csv_def label_eval ticker_eval)

lemma fetch_sp500_dup: "fetch_sp500 dup_web = Inr [''AAPL'', ''MSFT'', ''AAPL'']"
  by (simp add: fetch_sp500_def fetch_sp500_fallback_def dup_web_def wiki_urls_def
        try_read_html_def truthy_def dup_csv_def label_eval ticker_eval)

theorem loaders_keep_every_row_witness:
  "read_sp500_csv dup_csv ''sp500.csv'' = Inr [''AAPL'', ''MSFT'', ''AAPL'']
   \<and> read_russell3000 dup_csv ''sp500.csv'' = Inr [''AAPL'', ''MSFT'', ''AAPL'']
   \<and> fetch_sp500 dup_web = Inr [''AAPL'', ''MSFT'', ''AAPL'']
   \<and> (\<exists>df col. dup_csv ''sp500.csv'' = Inr df \<and> find_column loose_ticker_label df = Some col
         \<and> [''AAPL'', ''MSFT'', ''AAPL''] = map normalize_ticker (snd col)
         \<and> length [''AAPL'', ''MSFT'', ''AAPL''] = length (snd col)
         \<and> (distinct [''AAPL'', ''MSFT'', ''AAPL'']
              \<longleftrightarrow> distinct (map normalize_ticker (snd col))))"
proof -
  note all = loaders_keep_every_row
    [of dup_csv "''sp500.csv''" "[''AAPL'', ''MSFT'', ''AAPL'']" dup_web example_coins example_coins]
  note h1 = read_sp500_csv_dup [of "''sp500.csv''"]
  note h2 = read_russell3000_dup [of "''sp500.csv''"]
  note h3 = fetch_sp500_dup
  from all have "read_sp500_csv dup_csv ''sp500.csv'' = Inr [''AAPL'', ''MSFT'', ''AAPL''] \<longrightarrow>
      (\<exists>df col. dup_csv ''sp500.csv'' = Inr df \<and> find_column loose_ticker_label df = Some col
         \<and> [''AAPL'', ''MSFT'', ''AAPL''] = map normalize_ticker (snd col)
         \<and> length [''AAPL'', ''MSFT'', ''AAPL''] = length (snd col)
         \<and> (distinct [''AAPL'', ''MSFT'', ''AAPL'']
              \<longleftrightarrow> distinct (map normalize_ticker (snd col))))"
    by (rule conjunct1)
  from this h1 have c: "\<exists>df col. dup_csv ''sp500.csv'' = Inr df \<and> find_column loose_ticker_label df = Some col
         \<and> [''AAPL'', ''MSFT'', ''AAPL''] = map normalize_ticker (snd col)
         \<and> length [''AAPL'', ''MSFT'', ''AAPL''] = length (snd col)
         \<and> (distinct [''AAPL'', ''MSFT'', ''AAPL'']
              \<longleftrightarrow> distinct (map normalize_ticker (snd col)))"
    by (rule mp)
  show ?thesis
    by (intro conjI h1 h2 h3 c)
qed

theorem loaders_keep_duplicates_counterexample:
  "read_sp500_csv dup_csv ''sp500.csv'' = Inr [''AAPL'', ''MSFT'', ''AAPL'']
   \<and> \<not> distinct [''AAPL'', ''MSFT'', ''AAPL'']"
  by (simp add: read_sp500_csv_def dup_csv_def label_eval ticker_eval)


section \<open>Normalization in the two pipelines\<close>

text \<open>
  Claim C4, as the code has it. Inside the equity scanner normalization is one function,
  applied to every cell by every loader: it is the specification's function (uppercase,
  \<open>.\<close> and \<open>/\<close> to \<open>-\<close>) after the spaces have been deleted, and the specification's function
  itself on a ticker without spaces. The crypto pipeline formats with another function,
  which deletes \<open>.\<close> and \<open>-\<close>, and the two give different strings for every ticker that
  contains \<open>.\<close> or \<open>-\<close>.
\<close>

theorem normalization_per_pipeline:
  "normalize_ticker s = spec_normalize (filter (\<lambda>c. c \<noteq> CHR '' '') s)
   \<and> (CHR '' '' \<notin> set s \<longrightarrow> normalize_ticker s = spec_normalize s)
   \<and> (read_sp500_csv rd path = Inr syms \<longrightarrow> (\<exists>cells. syms = map normalize_ticker cells))
   \<and> (read_russell3000 rd path = Inr syms \<longrightarrow> (\<exists>cells. syms = map normalize_ticker cells))
   \<and> (fetch_sp500 w = Inr syms \<longrightarrow> (\<exists>cells. syms = map normalize_ticker cells))
   \<and> (CHR ''.'' \<in> set s \<or> CHR ''-'' \<in> set s \<longrightarrow> normalize_ticker s \<noteq> tv_symbols_base s)"
proof (intro conjI impI)
  show "normalize_ticker s = spec_normalize (filter (\<lambda>c. c \<noteq> CHR '' '') s)"
    by (rule normalize_ticker_spec)
next
  assume "CHR '' '' \<notin> set s"
  then have "filter (\<lambda>c. c \<noteq> CHR '' '') s = s"
    by (induction s) auto
  then show "normalize_ticker s = spec_normalize s"
    by (simp add: normalize_ticker_spec)
next
  assume "read_sp500_csv rd path = Inr syms"
  from read_sp500_csv_Inr [OF this] show "\<exists>cells. syms = map normalize_ticker cells"
    by blast
next
  assume "read_russell3000 rd path = Inr syms"
  from read_russell3000_Inr [OF this] show "\<exists>cells. syms = map normalize_ticker cells"
    by blast
next
  assume "fetch_sp500 w = Inr syms"
  from fetch_sp500_Inr [OF this] show "\<exists>cells. syms = map normalize_ticker cells"
    by blast
next
  assume "CHR ''.'' \<in> set s \<or> CHR ''-'' \<in> set s"
  then have "CHR ''-'' \<in> set (normalize_ticker s)"
    by (auto simp: dash_in_normalize_ticker)
  then show "normalize_ticker s \<noteq> tv_symbols_base s"
    using no_dash_in_tv_symbols_base [of s] by auto
qed

theorem normalization_per_pipeline_witness:
  "CHR '' '' \<notin> set ''BRK.B''
   \<and> read_sp500_csv dup_csv ''sp500.csv'' = Inr [''AAPL'', ''MSFT'', ''AAPL'']
   \<and> read_russell3000 dup_csv ''sp500.csv'' = Inr [''AAPL'', ''MSFT'', ''AAPL'']
   \<and> fetch_sp500 dup_web = Inr [''AAPL'', ''MSFT'', ''AAPL'']
   \<and> (CHR ''.'' \<in> set ''BRK.B'' \<or> CHR ''-'' \<in> set ''BRK.B'')
   \<and> normalize_ticker ''BRK.B'' = spec_normalize ''BRK.B''
   \<and> (\<exists>cells. [''AAPL'', ''MSFT'', ''AAPL''] = map normalize_ticker cells)
   \<and> normalize_ticker ''BRK.B'' \<noteq> tv_symbols_base ''BRK.B''"
proof -
  note all = normalization_per_pipeline
    [of "''BRK.B''" dup_csv "''sp500.csv''" "[''AAPL'', ''MSFT'', ''AAPL'']" dup_web]
  note h1 = read_sp500_csv_dup [of "''sp500.csv''"]
  note h2 = read_russell3000_dup [of "''sp500.csv''"]
  note h3 = fetch_sp500_dup
  have h0: "CHR '' '' \<notin> set ''BRK.B''" by simp
  have h4: "CHR ''.'' \<in> set ''BRK.B'' \<or> CHR ''-'' \<in> set ''BRK.B''" by simp
  from all have "CHR '' '' \<notin> set ''BRK.B'' \<longrightarrow> normalize_ticker ''BRK.B'' = spec_normalize ''BRK.B''"
    by (elim conjE)
  from this h0 have c1: "normalize_ticker ''BRK.B'' = spec_normalize ''BRK.B''"
    by (rule mp)
  from all have "read_sp500_csv dup_csv ''sp500.csv'' = Inr [''AAPL'', ''MSFT'', ''AAPL'']
      \<longrightarrow> (\<exists>cells. [''AAPL'', ''MSFT'', ''AAPL''] = map normalize_ticker cells)"
    by (elim conjE)
  from this h1 have c2: "\<exists>cells. [''AAPL'', ''MSFT'', ''AAPL''] = map normalize_ticker cells"
    by (rule mp)
  from all have "CHR ''.'' \<in> set ''BRK.B'' \<or> CHR ''-'' \<in> set ''BRK.B''
      \<longrightarrow> normalize_ticker ''BRK.B'' \<noteq> tv_symbols_base ''BRK.B''"
    by (elim conjE)
  from this h4 have c3: "normalize_ticker ''BRK.B'' \<noteq> tv_symbols_base ''BRK.B''"
    by (rule mp)
  show ?thesis
    by (intro conjI h0 h1 h2 h3 h4 c1 c2 c3)
qed

theorem pipelines_normalize_differently_counterexample:
  "normalize_ticker ''BRK.B'' = ''BRK-B'' \<and> tv_symbols_base ''BRK.B'' = ''BRKB''
   \<and> normalize_ticker ''BRK.B'' \<noteq> tv_symbols_base ''BRK.B''"
  by (simp add: ticker_eval tv_symbols_base_def string_simps)


section \<open>The candidates of a ticker\<close>

lemma mset_two:
  assumes "mset ys = {#a, b#}"
  shows "ys = [a, b] \<or> ys = [b, a]"
proof -
  from assms have "size (mset ys) = 2" by simp
  then have "length ys = 2" by simp
  then obtain x y where ys: "ys = [x, y]"
    by (metis (no_types) One_nat_def Suc_1 length_0_conv length_Suc_conv)
  with assms have "{#x, y#} = {#a, b#}" by simp
  then have "(x = a \<and> y = b) \<or> (x = b \<and> y = a)"
    by (auto simp: add_eq_conv_diff)
  with ys show ?thesis by auto
qed

lemma set_iteration_insertion_order: "set_iteration insertion_order"
  by (simp add: set_iteration_def insertion_order_def)

lemma set_iteration_rev: "set_iteration rev"
  by (simp add: set_iteration_def)

lemma cands_BRK_B:
  "tv_symbol_candidates order exchanges ''BRK.B''
     = concat (map (\<lambda>t. map (\<lambda>ex. (ex, t)) exchanges) (order [''BRK.B'', ''BRK-B'']))"
  by (simp add: tv_symbol_candidates_def set_add_def string_simps)

text \<open>
  Claim C5, as the code has it. For \<open>BRK.B\<close> and the venues NASDAQ, NYSE the generator
  returns the four pairs, each once and no other: the two venues of one spelling side by
  side in the configured order, the spellings in the order in which the set of spellings is
  iterated. The code does not fix that order, so the list is one of two.
\<close>

theorem candidates_of_BRK_B:
  assumes "set_iteration order"
  shows "tv_symbol_candidates order [''NASDAQ'', ''NYSE''] ''BRK.B''
           = [(''NASDAQ'', ''BRK.B''), (''NYSE'', ''BRK.B''), (''NASDAQ'', ''BRK-B''), (''NYSE'', ''BRK-B'')]
         \<or> tv_symbol_candidates order [''NASDAQ'', ''NYSE''] ''BRK.B''
           = [(''NASDAQ'', ''BRK-B''), (''NYSE'', ''BRK-B''), (''NASDAQ'', ''BRK.B''), (''NYSE'', ''BRK.B'')]"
proof -
  from assms have "mset (order [''BRK.B'', ''BRK-B'']) = {#''BRK.B'', ''BRK-B''#}"
    by (simp add: set_iteration_def)
  from mset_two [OF this] show ?thesis
    by (auto simp: cands_BRK_B)
qed

theorem candidates_of_BRK_B_witness:
  "set_iteration insertion_order
   \<and> tv_symbol_candidates insertion_order [''NASDAQ'', ''NYSE''] ''BRK.B''
       = [(''NASDAQ'', ''BRK.B''), (''NYSE'', ''BRK.B''), (''NASDAQ'', ''BRK-B''), (''NYSE'', ''BRK-B'')]"
  using candidates_of_BRK_B [OF set_iteration_insertion_order]
  by (simp add: set_iteration_insertion_order cands_BRK_B insertion_order_def)

theorem candidate_order_not_fixed_counterexample:
  "set_iteration insertion_order \<and> set_iteration rev
   \<and> tv_symbol_candidates insertion_order [''NASDAQ'', ''NYSE''] ''BRK.B''
       \<noteq> tv_symbol_candidates rev [''NASDAQ'', ''NYSE''] ''BRK.B''"
  by (simp add: set_iteration_insertion_order set_iteration_rev cands_BRK_B insertion_order_def)


section \<open>The rating lookup\<close>





section \<open>The candidate loop\<close>


lemma trace_query: "trace (query ex symb tf w) = trace w @ [Query ex symb tf]"
  by (simp add: query_def)






lemma queries_append: "queries tf (cs @ ds) = queries tf cs @ queries tf ds"
  by (simp add: queries_def)








section \<open>The ticker loop and the timeframe loop\<close>







lemma set_sort_values: "set (sort_values rows) = set rows"
  by (simp add: sort_values_def)



section \<open>The crypto loops\<close>










section \<open>Concrete runs\<close>

lemmas scan_eval =
  tv_symbol_candidates_def set_add_def EQUITY_EXCHANGES_def insertion_order_def
  get_tv_rating_def tv_query_def query_def sleep_def write_file_def world0_def Let_def
  string_simps


lemma scan_IBM_nyse_buy:
  "scan_universe svc_nyse_buy insertion_order (15 / 100) [''IBM''] ''sp500'' [INTERVAL_4_HOURS] world0
     = \<lparr>issued = 2,
        trace = [Query ''NASDAQ'' ''IBM'' INTERVAL_4_HOURS, Query ''NYSE'' ''IBM'' INTERVAL_4_HOURS,
                 Sleep (15 / 100)],
        files = [\<lparr>file_label = ''sp500'', file_timeframe = INTERVAL_4_HOURS,
                  file_table = [\<lparr>ticker = ''IBM'', tv_exchange = ''NYSE'', tv_symbol = ''IBM'',
                                  rating = ''BUY'', timeframe = INTERVAL_4_HOURS\<rparr>]\<rparr>]\<rparr>"
  by (simp add: scan_eval svc_nyse_buy_def sort_values_def)



lemma top_500_example:
  "top_500_4h svc_bybit_buy [hd example_coins] (tl example_coins) world0
     = (Inr [\<lparr>cr_name = ''Ethereum'', cr_symbol = ''ETH'', cr_tv_exchange = ''BYBIT'',
              cr_tv_symbol = ''ETHUSDT'', cr_market_cap = Some 7, rating_4h = ''BUY''\<rparr>,
             \<lparr>cr_name = ''Bitcoin'', cr_symbol = ''BTC'', cr_tv_exchange = ''BYBIT'',
              cr_tv_symbol = ''BTCUSDT'', cr_market_cap = Some 5, rating_4h = ''BUY''\<rparr>],
        \<lparr>issued = 4,
          trace = [Query ''BINANCE'' ''BTCUSDT'' INTERVAL_4_HOURS, Sleep (2 / 10),
                   Query ''BYBIT'' ''BTCUSDT'' INTERVAL_4_HOURS,
                   Query ''BINANCE'' ''ETHUSDT'' INTERVAL_4_HOURS, Sleep (2 / 10),
                   Query ''BYBIT'' ''ETHUSDT'' INTERVAL_4_HOURS],
          files = []\<rparr>)"
  by (simp add: top_500_4h_def cg_def example_coins_def tv_symbols_def tv_symbols_base_def
        svc_bybit_buy_def sort_market_cap_desc_def scan_eval upper_char_def)


section \<open>Stopping at the first answer\<close>




section \<open>A ticker nobody knows\<close>




section \<open>The output tables\<close>




section \<open>One row for one occurrence\<close>





section \<open>The delay between queries\<close>

text \<open>
  Claim C3 does not hold of the code. The scan sleeps once per ticker, after the loop over
  its candidates; it does not sleep between the candidates. With a symbol that NASDAQ does
  not know, the queries to NASDAQ and to NYSE follow one another with no sleep between
  them. The crypto pipeline sleeps only after a query that raised, so the query that
  answered for one coin and the first query for the next coin follow one another directly.
\<close>

theorem no_delay_between_candidates:
  "trace (scan_universe svc_nyse_buy insertion_order (15 / 100) [''IBM''] ''sp500''
            [INTERVAL_4_HOURS] world0)
     = [Query ''NASDAQ'' ''IBM'' INTERVAL_4_HOURS, Query ''NYSE'' ''IBM'' INTERVAL_4_HOURS,
        Sleep (15 / 100)]
   \<and> \<not> delay_between_queries (15 / 100)
         (trace (scan_universe svc_nyse_buy insertion_order (15 / 100) [''IBM''] ''sp500''
                   [INTERVAL_4_HOURS] world0))
   \<and> \<not> delay_between_queries (2 / 10)
         (trace (snd (top_500_4h svc_bybit_buy [hd example_coins] (tl example_coins) world0)))"
  unfolding scan_IBM_nyse_buy top_500_example
  by (simp add: delay_between_queries_def)


section \<open>A malformed file\<close>

lemma read_good: "read_sp500_csv two_files ''good.csv'' = Inr [''IBM'']"
  by (simp add: read_sp500_csv_def two_files_def label_eval ticker_eval)

lemma read_good_russell: "read_russell3000 two_files ''good.csv'' = Inr [''IBM'']"
  by (simp add: read_russell3000_def two_files_def label_eval ticker_eval)

lemma bad_has_no_column:
  "two_files ''bad.csv'' = Inr [(''Name'', [''Apple'', ''Microsoft''])]
   \<and> find_column loose_ticker_label [(''Name'', [''Apple'', ''Microsoft''])] = None"
  by (simp add: two_files_def label_eval)

lemma intervals_4h: "map_intervals [''4h''] [] = Inr [INTERVAL_4_HOURS]"
  by (simp add: interval_map_def)

lemma sp500_block_good:
  "sp500_block bad_r3000_args example_env [INTERVAL_4_HOURS] world0
     = (None, scan_universe svc_nyse_buy insertion_order (15 / 100) [''IBM''] ''sp500''
                [INTERVAL_4_HOURS] world0)"
proof -
  have "load_sp500 bad_r3000_args example_env = Inr [''IBM'']"
    by (simp add: load_sp500_def bad_r3000_args_def example_env_def read_good)
  moreover have "py_slice [''IBM''] (start bad_r3000_args) (end_arg bad_r3000_args) = [''IBM'']"
    by (simp add: py_slice_def clip_index_def bad_r3000_args_def)
  moreover have "only bad_r3000_args = None" "\<not> skip_sp500 bad_r3000_args"
    "env_service example_env = svc_nyse_buy" "env_order example_env = insertion_order"
    "sleep_arg bad_r3000_args = 15 / 100"
    by (simp_all add: bad_r3000_args_def example_env_def)
  ultimately show ?thesis
    by (simp only: sp500_block_def) simp
qed

text \<open>
  Claim C2, as the code has it. \<open>main\<close> has no handler around the loaders. When the
  S&P 500 file has no ticker or symbol column, the error leaves \<open>main\<close> before the
  Russell 3000 block is reached: the run ends in the state it started in, with no query
  issued and no file written for either universe. When the Russell 3000 file has no such
  column, the error ends the run in the state the S&P 500 block left, so the S&P 500 scan
  that came first has been done.
\<close>

theorem malformed_csv_ends_the_run:
  "(map_intervals (intervals a) [] = Inr ivs
      \<and> only a \<in> {None, Some ''sp500''} \<and> \<not> skip_sp500 a
      \<and> sp500_csv a = Some p \<and> p \<noteq> [] \<and> env_read_csv e p = Inr df
      \<and> find_column loose_ticker_label df = None
    \<longrightarrow> main a e w
          = (Some (RuntimeError ''CSV must contain a 'ticker' or 'symbol' column for S&P 500.''), w))
   \<and> (map_intervals (intervals a') [] = Inr ivs'
      \<and> sp500_block a' e' ivs' w' = (None, w1)
      \<and> only a' \<in> {None, Some ''r3000''}
      \<and> r3000_csv a' = Some q \<and> q \<noteq> [] \<and> env_read_csv e' q = Inr df'
      \<and> find_column loose_ticker_label df' = None
    \<longrightarrow> main a' e' w'
          = (Some (RuntimeError ''CSV must contain a 'ticker' or 'symbol' column.''), w1))"
proof (intro conjI impI)
  assume h: "map_intervals (intervals a) [] = Inr ivs
      \<and> only a \<in> {None, Some ''sp500''} \<and> \<not> skip_sp500 a
      \<and> sp500_csv a = Some p \<and> p \<noteq> [] \<and> env_read_csv e p = Inr df
      \<and> find_column loose_ticker_label df = None"
  then have "load_sp500 a e
               = Inl (RuntimeError ''CSV must contain a 'ticker' or 'symbol' column for S&P 500.'')"
    by (simp add: load_sp500_def read_sp500_csv_def)
  with h have "sp500_block a e ivs w
      = (Some (RuntimeError ''CSV must contain a 'ticker' or 'symbol' column for S&P 500.''), w)"
    by (simp add: sp500_block_def)
  with h show "main a e w
      = (Some (RuntimeError ''CSV must contain a 'ticker' or 'symbol' column for S&P 500.''), w)"
    by (simp add: main_def)
next
  assume h: "map_intervals (intervals a') [] = Inr ivs'
      \<and> sp500_block a' e' ivs' w' = (None, w1)
      \<and> only a' \<in> {None, Some ''r3000''}
      \<and> r3000_csv a' = Some q \<and> q \<noteq> [] \<and> env_read_csv e' q = Inr df'
      \<and> find_column loose_ticker_label df' = None"
  then have "read_russell3000 (env_read_csv e') q
               = Inl (RuntimeError ''CSV must contain a 'ticker' or 'symbol' column.'')"
    by (simp add: read_russell3000_def)
  with h have "r3000_block a' e' ivs' w1
      = (Some (RuntimeError ''CSV must contain a 'ticker' or 'symbol' column.''), w1)"
    by (simp add: r3000_block_def)
  with h show "main a' e' w'
      = (Some (RuntimeError ''CSV must contain a 'ticker' or 'symbol' column.''), w1)"
    by (simp add: main_def)
qed

theorem malformed_csv_ends_the_run_witness:
  "(map_intervals (intervals bad_sp500_args) [] = Inr [INTERVAL_4_HOURS]
      \<and> only bad_sp500_args \<in> {None, Some ''sp500''} \<and> \<not> skip_sp500 bad_sp500_args
      \<and> sp500_csv bad_sp500_args = Some ''bad.csv'' \<and> ''bad.csv'' \<noteq> []
      \<and> env_read_csv example_env ''bad.csv'' = Inr [(''Name'', [''Apple'', ''Microsoft''])]
      \<and> find_column loose_ticker_label [(''Name'', [''Apple'', ''Microsoft''])] = None)
   \<and> (map_intervals (intervals bad_r3000_args) [] = Inr [INTERVAL_4_HOURS]
      \<and> sp500_block bad_r3000_args example_env [INTERVAL_4_HOURS] world0
          = (None, scan_universe svc_nyse_buy insertion_order (15 / 100) [''IBM''] ''sp500''
                     [INTERVAL_4_HOURS] world0)
      \<and> only bad_r3000_args \<in> {None, Some ''r3000''}
      \<and> r3000_csv bad_r3000_args = Some ''bad.csv'' \<and> ''bad.csv'' \<noteq> []
      \<and> env_read_csv example_env ''bad.csv'' = Inr [(''Name'', [''Apple'', ''Microsoft''])]
      \<and> find_column loose_ticker_label [(''Name'', [''Apple'', ''Microsoft''])] = None)
   \<and> main bad_sp500_args example_env world0
       = (Some (RuntimeError ''CSV must contain a 'ticker' or 'symbol' column for S&P 500.''),
          world0)
   \<and> main bad_r3000_args example_env world0
       = (Some (RuntimeError ''CSV must contain a 'ticker' or 'symbol' column.''),
          scan_universe svc_nyse_buy insertion_order (15 / 100) [''IBM''] ''sp500''
            [INTERVAL_4_HOURS] world0)
   \<and> scanned ''sp500''
        (scan_universe svc_nyse_buy insertion_order (15 / 100) [''IBM''] ''sp500''
           [INTERVAL_4_HOURS] world0)"
proof -
  have h1: "map_intervals (intervals bad_sp500_args) [] = Inr [INTERVAL_4_HOURS]
      \<and> only bad_sp500_args \<in> {None, Some ''sp500''} \<and> \<not> skip_sp500 bad_sp500_args
      \<and> sp500_csv bad_sp500_args = Some ''bad.csv'' \<and> ''bad.csv'' \<noteq> []
      \<and> env_read_csv example_env ''bad.csv'' = Inr [(''Name'', [''Apple'', ''Microsoft''])]
      \<and> find_column loose_ticker_label [(''Name'', [''Apple'', ''Microsoft''])] = None"
    using bad_has_no_column
    by (simp add: bad_sp500_args_def example_env_def intervals_4h interval_map_def)
  have h2: "map_intervals (intervals bad_r3000_args) [] = Inr [INTERVAL_4_HOURS]
      \<and> sp500_block bad_r3000_args example_env [INTERVAL_4_HOURS] world0
          = (None, scan_universe svc_nyse_buy insertion_order (15 / 100) [''IBM''] ''sp500''
                     [INTERVAL_4_HOURS] world0)
      \<and> only bad_r3000_args \<in> {None, Some ''r3000''}
      \<and> r3000_csv bad_r3000_args = Some ''bad.csv'' \<and> ''bad.csv'' \<noteq> []
      \<and> env_read_csv example_env ''bad.csv'' = Inr [(''Name'', [''Apple'', ''Microsoft''])]
      \<and> find_column loose_ticker_label [(''Name'', [''Apple'', ''Microsoft''])] = None"
    using bad_has_no_column sp500_block_good
    by (simp add: bad_r3000_args_def example_env_def intervals_4h interval_map_def)
  note all = malformed_csv_ends_the_run
    [where a = bad_sp500_args and e = example_env and w = world0 and ivs = "[INTERVAL_4_HOURS]"
       and p = "''bad.csv''" and df = "[(''Name'', [''Apple'', ''Microsoft''])]"
       and a' = bad_r3000_args and e' = example_env and w' = world0
       and ivs' = "[INTERVAL_4_HOURS]" and q = "''bad.csv''"
       and df' = "[(''Name'', [''Apple'', ''Microsoft''])]"
       and ?w1.0 = "scan_universe svc_nyse_buy insertion_order (15 / 100) [''IBM''] ''sp500''
                     [INTERVAL_4_HOURS] world0"]
  note c1 = all [THEN conjunct1, THEN mp, OF h1]
  note c2 = all [THEN conjunct2, THEN mp, OF h2]
  have c3: "scanned ''sp500''
        (scan_universe svc_nyse_buy insertion_order (15 / 100) [''IBM''] ''sp500''
           [INTERVAL_4_HOURS] world0)"
    unfolding scan_IBM_nyse_buy by (simp add: scanned_def)
  show ?thesis
    by (intro conjI h1 h2 c1 c2 c3)
qed

theorem malformed_sp500_stops_russell_counterexample:
  "read_russell3000 two_files ''good.csv'' = Inr [''IBM'']
   \<and> main bad_sp500_args example_env world0
       = (Some (RuntimeError ''CSV must contain a 'ticker' or 'symbol' column for S&P 500.''),
          world0)
   \<and> \<not> scanned ''russell3000'' (snd (main bad_sp500_args example_env world0))"
proof -
  have m: "main bad_sp500_args example_env world0
       = (Some (RuntimeError ''CSV must contain a 'ticker' or 'symbol' column for S&P 500.''),
          world0)"
    using bad_has_no_column
    by (simp add: main_def sp500_block_def load_sp500_def read_sp500_csv_def
          bad_sp500_args_def example_env_def intervals_4h interval_map_def)
  have "\<not> scanned ''russell3000'' world0"
    by (simp add: scanned_def world0_def)
  with m read_good_russell show ?thesis
    by simp
qed


end
